theory Spec2Isabelle
  imports Complex_Main
begin

section \<open>Coregistration between coordinate frames (mne/coreg.py)\<close>

text \<open>
  A shallow embedding of the numerical core of \<^verbatim>\<open>mne/coreg.py\<close>:
  \<^verbatim>\<open>_decimate_points\<close>, \<^verbatim>\<open>_trans_from_params\<close>, \<^verbatim>\<open>fit_matched_points\<close> and
  \<^verbatim>\<open>get_ras_to_neuromag_trans\<close>.

  Floating-point numbers are modelled by \<^typ>\<open>real\<close>: the model is exact arithmetic, and the
  values \<^verbatim>\<open>nan\<close> and \<^verbatim>\<open>inf\<close> have no counterpart in it. Python exceptions are values of
  the type \<open>error\<close>; a function that may raise returns \<open>error + 'a\<close>.

  The voxel grid of \<^verbatim>\<open>_decimate_points\<close> compares points with bin edges, where one
  rounding of a double changes the result. Its model is therefore restricted to the inputs
  on which every operation of the function is exact in double precision (integer
  coordinates and an integer resolution of bounded size); any other input is marked as
  outside the model.
\<close>

subsection \<open>Exceptions\<close>

text \<open>
  Each constructor is the Python exception class; the string is the message (the template,
  where the source formats values into it) and a further argument is the value that the
  source formats into the message. Two constructors are not exceptions: \<open>NaNResult\<close>
  marks the calls that return an array of \<^verbatim>\<open>nan\<close> (a division of zero by zero), for which
  the real-valued model has no value, and \<open>OutsideModel\<close> marks the calls whose result
  depends on the rounding of doubles, about which the model says nothing.
\<close>

datatype error =
    ValueError string
  | NotImplementedError string "bool \<times> bool \<times> int"
  | RuntimeError string "real list"
  | TypeError string
  | IndexError string
  | UnboundLocalError string
  | NaNResult
  | OutsideModel

subsection \<open>Two-dimensional arrays of the transforms\<close>

type_synonym vec = "real list"
type_synonym mat = "real list list"

text \<open>\<^verbatim>\<open>numpy.dot\<close> of two 2-D arrays given by their rows; the inner dimensions must agree.\<close>

definition matmul :: "mat \<Rightarrow> mat \<Rightarrow> mat" where
  "matmul A B = map (\<lambda>r. map (\<lambda>c. sum_list (map2 (*) r c)) (transpose B)) A"

definition dot :: "mat \<Rightarrow> mat \<Rightarrow> error + mat" where
  "dot A B =
     (if (\<forall>r \<in> set A. length r = length B) then Inr (matmul A B)
      else Inl (ValueError ''shapes not aligned''))"

text \<open>
  \<^verbatim>\<open>functools.reduce(dot, seq)\<close> without an initial value: a left fold over the sequence, a
  \<^verbatim>\<open>TypeError\<close> on the empty sequence.
\<close>

fun reduce_from :: "mat \<Rightarrow> mat list \<Rightarrow> error + mat" where
  "reduce_from acc [] = Inr acc"
| "reduce_from acc (m # ms) =
     (case dot acc m of Inl e \<Rightarrow> Inl e | Inr acc' \<Rightarrow> reduce_from acc' ms)"

definition reduce_dot :: "mat list \<Rightarrow> error + mat" where
  "reduce_dot ms =
     (case ms of
        [] \<Rightarrow> Inl (TypeError ''reduce() of empty sequence with no initial value'')
      | m # ms' \<Rightarrow> reduce_from m ms')"

subsection \<open>The helpers of mne/transforms.py\<close>

text \<open>
  \<^verbatim>\<open>coreg.py\<close> imports \<^verbatim>\<open>rotation\<close>, \<^verbatim>\<open>rotation3d\<close>, \<^verbatim>\<open>scaling\<close> and
  \<^verbatim>\<open>translation\<close> from \<^verbatim>\<open>mne/transforms.py\<close>, which is not among the sources. The
  spec describes a transform matrix as a 4 x 4 homogeneous matrix that encodes rotation,
  translation and scale, with the bottom row [0, 0, 0, 1], and the rotation as given by three
  angles (x, y, z). It leaves the convention of the angles open; the model takes the
  rotation about the x axis, then the y axis, then the z axis. The properties below use of
  the convention only that the angles (0, 0, 0) give the identity and that \<^verbatim>\<open>rotation3d\<close>
  is the 3 x 3 block of \<^verbatim>\<open>rotation\<close>.
\<close>

text \<open>
  Modelled from the spec: \<^verbatim>\<open>rotation3d(x, y, z)\<close> of \<^verbatim>\<open>mne/transforms.py\<close> is missing; it
  is the 3 x 3 rotation matrix of the three angles.
\<close>

definition rotation3d :: "real \<Rightarrow> real \<Rightarrow> real \<Rightarrow> mat" where
  "rotation3d x y z =
     [[cos y * cos z, - cos x * sin z + sin x * sin y * cos z,
         sin x * sin z + cos x * sin y * cos z],
      [cos y * sin z, cos x * cos z + sin x * sin y * sin z,
         - sin x * cos z + cos x * sin y * sin z],
      [- sin y, sin x * cos y, cos x * cos y]]"

text \<open>
  Modelled from the spec: \<^verbatim>\<open>rotation(x, y, z)\<close> of \<^verbatim>\<open>mne/transforms.py\<close> is missing; it is
  the homogeneous 4 x 4 matrix of the same rotation, with bottom row [0, 0, 0, 1].
\<close>

definition rotation :: "real \<Rightarrow> real \<Rightarrow> real \<Rightarrow> mat" where
  "rotation x y z =
     [[cos y * cos z, - cos x * sin z + sin x * sin y * cos z,
         sin x * sin z + cos x * sin y * cos z, 0],
      [cos y * sin z, cos x * cos z + sin x * sin y * sin z,
         - sin x * cos z + cos x * sin y * sin z, 0],
      [- sin y, sin x * cos y, cos x * cos y, 0],
      [0, 0, 0, 1]]"

text \<open>
  Modelled from the spec: \<^verbatim>\<open>translation(x, y, z)\<close> of \<^verbatim>\<open>mne/transforms.py\<close> is missing; it
  is the homogeneous 4 x 4 matrix that adds (x, y, z) to a point, with bottom row
  [0, 0, 0, 1].
\<close>

definition translation :: "real \<Rightarrow> real \<Rightarrow> real \<Rightarrow> mat" where
  "translation x y z =
     [[1, 0, 0, x],
      [0, 1, 0, y],
      [0, 0, 1, z],
      [0, 0, 0, 1]]"

text \<open>
  Modelled from the spec: \<^verbatim>\<open>scaling(x, y, z)\<close> of \<^verbatim>\<open>mne/transforms.py\<close> is missing; it is
  the homogeneous 4 x 4 matrix that multiplies the three coordinates of a point by x, y and
  z, with bottom row [0, 0, 0, 1].
\<close>

definition scaling :: "real \<Rightarrow> real \<Rightarrow> real \<Rightarrow> mat" where
  "scaling x y z =
     [[x, 0, 0, 0],
      [0, y, 0, 0],
      [0, 0, z, 0],
      [0, 0, 0, 1]]"

subsection \<open>\<^verbatim>\<open>_trans_from_params\<close>\<close>

text \<open>
  \<^verbatim>\<open>x, y, z = seq\<close>: the sequence must have exactly three items.
\<close>

definition unpack3 :: "real list \<Rightarrow> error + (real \<times> real \<times> real)" where
  "unpack3 xs =
     (case xs of
        [x, y, z] \<Rightarrow> Inr (x, y, z)
      | _ \<Rightarrow> Inl (ValueError ''wrong number of values to unpack''))"

text \<open>\<^verbatim>\<open>seq[i]\<close> for a non-negative index.\<close>

definition getitem :: "real list \<Rightarrow> nat \<Rightarrow> error + real" where
  "getitem xs i = (if i < length xs then Inr (xs ! i) else Inl (IndexError ''index out of range''))"

text \<open>
  The three steps of the function build the list \<^verbatim>\<open>trans\<close> (here \<open>ms\<close>): the rotation is appended, the
  translation is inserted at position 0, the scaling is appended. Each step returns the list
  and the cursor \<^verbatim>\<open>i\<close> into \<^verbatim>\<open>params\<close>.
\<close>

definition step_rotate :: "bool \<Rightarrow> real list \<Rightarrow> error + (nat \<times> mat list)" where
  "step_rotate do_rotate params =
     (if do_rotate then
        (case unpack3 (take 3 params) of
           Inl e \<Rightarrow> Inl e
         | Inr (x, y, z) \<Rightarrow> Inr (3, [rotation x y z]))
      else Inr (0, []))"

definition step_translate :: "bool \<Rightarrow> real list \<Rightarrow> nat \<times> mat list \<Rightarrow> error + (nat \<times> mat list)" where
  "step_translate do_translate params st =
     (case st of (i, ms) \<Rightarrow>
        if do_translate then
          (case unpack3 (take 3 (drop i params)) of
             Inl e \<Rightarrow> Inl e
           | Inr (x, y, z) \<Rightarrow> Inr (i + 3, translation x y z # ms))
        else Inr (i, ms))"

definition step_scale :: "int \<Rightarrow> real list \<Rightarrow> nat \<times> mat list \<Rightarrow> error + mat list" where
  "step_scale do_scale params st =
     (case st of (i, ms) \<Rightarrow>
        if do_scale = 1 then
          (case getitem params i of
             Inl e \<Rightarrow> Inl e
           | Inr s \<Rightarrow> Inr (ms @ [scaling s s s]))
        else if do_scale = 3 then
          (case unpack3 (take 3 (drop i params)) of
             Inl e \<Rightarrow> Inl e
           | Inr (x, y, z) \<Rightarrow> Inr (ms @ [scaling x y z]))
        else Inr ms)"

definition trans_from_params :: "bool \<times> bool \<times> int \<Rightarrow> real list \<Rightarrow> error + mat" where
  "trans_from_params param_info params =
     (case param_info of (do_rotate, do_translate, do_scale) \<Rightarrow>
        (case step_rotate do_rotate params of
           Inl e \<Rightarrow> Inl e
         | Inr st1 \<Rightarrow>
            (case step_translate do_translate params st1 of
               Inl e \<Rightarrow> Inl e
             | Inr st2 \<Rightarrow>
                (case step_scale do_scale params st2 of
                   Inl e \<Rightarrow> Inl e
                 | Inr ms \<Rightarrow> reduce_dot ms))))"


subsection \<open>N-dimensional arrays of points\<close>

text \<open>
  A \<^verbatim>\<open>numpy.ndarray\<close> of floats is its shape and its items in C order. A well-formed array
  has as many items as the product of its shape.
\<close>

record ndarray =
  shape :: "nat list"
  data :: "real list"

definition wf_array :: "ndarray \<Rightarrow> bool" where
  "wf_array a = (length (data a) = prod_list (shape a))"

text \<open>\<^verbatim>\<open>numpy.atleast_2d\<close>: a 0-d array becomes 1 x 1, a 1-d array of length n becomes 1 x n.\<close>

definition atleast_2d :: "ndarray \<Rightarrow> ndarray" where
  "atleast_2d a =
     (case shape a of
        [] \<Rightarrow> a\<lparr>shape := [1, 1]\<rparr>
      | [n] \<Rightarrow> a\<lparr>shape := [1, n]\<rparr>
      | _ \<Rightarrow> a)"

text \<open>The items of an array of one or more dimensions, cut along its last axis.\<close>

definition rows :: "ndarray \<Rightarrow> real list list" where
  "rows a =
     (let m = last (shape a)
      in map (\<lambda>i. take m (drop (i * m) (data a))) [0..<prod_list (butlast (shape a))])"

text \<open>
  \<^verbatim>\<open>np.hstack((a, np.ones((len(a), 1))))\<close> for an array of two or more dimensions:
  concatenation along axis 1, which numpy refuses unless \<^verbatim>\<open>a\<close> is 2-d as well.
\<close>

definition hstack_ones :: "ndarray \<Rightarrow> error + ndarray" where
  "hstack_ones a =
     (case shape a of
        [n, m] \<Rightarrow> Inr \<lparr>shape = [n, m + 1], data = concat (map (\<lambda>r. r @ [1]) (rows a))\<rparr>
      | _ \<Rightarrow> Inl (ValueError ''arrays must have same number of dimensions''))"

definition ncols :: "mat \<Rightarrow> nat" where
  "ncols B = (case B of [] \<Rightarrow> 0 | r # _ \<Rightarrow> length r)"

text \<open>
  \<^verbatim>\<open>dot(a, B)\<close> for an N-d array \<^verbatim>\<open>a\<close> and a 2-d array \<^verbatim>\<open>B\<close>: the sum over the last axis
  of \<^verbatim>\<open>a\<close> and the first axis of \<^verbatim>\<open>B\<close>, whose lengths must agree.
\<close>

definition dot_nd :: "ndarray \<Rightarrow> mat \<Rightarrow> error + ndarray" where
  "dot_nd a B =
     (if last (shape a) = length B then
        Inr \<lparr>shape = butlast (shape a) @ [ncols B], data = concat (matmul (rows a) B)\<rparr>
      else Inl (ValueError ''shapes not aligned''))"

text \<open>\<^verbatim>\<open>est[:, :3]\<close> for a 2-d array.\<close>

definition first3 :: "ndarray \<Rightarrow> ndarray" where
  "first3 a =
     \<lparr>shape = [hd (shape a), min 3 (last (shape a))], data = concat (map (take 3) (rows a))\<rparr>"

subsection \<open>\<^verbatim>\<open>fit_matched_points\<close>\<close>

text \<open>
  The matrix \<^verbatim>\<open>trans\<close> that each of the four closures \<^verbatim>\<open>error(x)\<close> computes from the
  parameter vector, which it unpacks into exactly 3, 4, 6 or 7 names.
\<close>

definition trans_r :: "vec \<Rightarrow> error + mat" where
  "trans_r x =
     (case x of
        [rx, ry, rz] \<Rightarrow> Inr (rotation3d rx ry rz)
      | _ \<Rightarrow> Inl (ValueError ''wrong number of values to unpack''))"

definition trans_rs :: "vec \<Rightarrow> error + mat" where
  "trans_rs x =
     (case x of
        [rx, ry, rz, s] \<Rightarrow> Inr (map (map (\<lambda>v. v * s)) (rotation3d rx ry rz))
      | _ \<Rightarrow> Inl (ValueError ''wrong number of values to unpack''))"

definition trans_rt :: "vec \<Rightarrow> error + mat" where
  "trans_rt x =
     (case x of
        [rx, ry, rz, tx, ty, tz] \<Rightarrow> dot (translation tx ty tz) (rotation rx ry rz)
      | _ \<Rightarrow> Inl (ValueError ''wrong number of values to unpack''))"

definition trans_rts :: "vec \<Rightarrow> error + mat" where
  "trans_rts x =
     (case x of
        [rx, ry, rz, tx, ty, tz, s] \<Rightarrow>
          reduce_dot [translation tx ty tz, rotation rx ry rz, scaling s s s]
      | _ \<Rightarrow> Inl (ValueError ''wrong number of values to unpack''))"

text \<open>
  The rest of a closure: \<^verbatim>\<open>est = dot(src_pts, trans.T)\<close> and the flattened residual,
  \<^verbatim>\<open>(tgt_pts - est).ravel()\<close> without translation and \<^verbatim>\<open>(tgt_pts - est[:, :3]).ravel()\<close>
  with it. Where the product is defined the two operands of the subtraction have the same
  shape, so it is item by item.
\<close>

definition residual :: "bool \<Rightarrow> ndarray \<Rightarrow> ndarray \<Rightarrow> mat \<Rightarrow> error + vec" where
  "residual translate src_pts tgt_pts tr =
     (case dot_nd src_pts (transpose tr) of
        Inl e \<Rightarrow> Inl e
      | Inr est \<Rightarrow>
          Inr (map2 (-) (data tgt_pts) (data (if translate then first3 est else est))))"

definition error_fn ::
  "(vec \<Rightarrow> error + mat) \<Rightarrow> bool \<Rightarrow> ndarray \<Rightarrow> ndarray \<Rightarrow> vec \<Rightarrow> error + vec" where
  "error_fn trans_of translate src_pts tgt_pts x =
     (case trans_of x of
        Inl e \<Rightarrow> Inl e
      | Inr tr \<Rightarrow> residual translate src_pts tgt_pts tr)"

text \<open>
  The dispatch on \<^verbatim>\<open>param_info\<close>: the closure \<^verbatim>\<open>error\<close> and the default of \<^verbatim>\<open>x0\<close>, or
  the \<^verbatim>\<open>NotImplementedError\<close> whose message is formatted from \<^verbatim>\<open>param_info\<close>.
\<close>

definition select_error ::
  "bool \<times> bool \<times> int \<Rightarrow> ndarray \<Rightarrow> ndarray \<Rightarrow> error + ((vec \<Rightarrow> error + vec) \<times> vec)" where
  "select_error param_info src_pts tgt_pts =
     (if param_info = (True, False, 0) then
        Inr (error_fn trans_r False src_pts tgt_pts, [0, 0, 0])
      else if param_info = (True, False, 1) then
        Inr (error_fn trans_rs False src_pts tgt_pts, [0, 0, 0, 1])
      else if param_info = (True, True, 0) then
        Inr (error_fn trans_rt True src_pts tgt_pts, [0, 0, 0, 0, 0, 0])
      else if param_info = (True, True, 1) then
        Inr (error_fn trans_rts True src_pts tgt_pts, [0, 0, 0, 0, 0, 0, 1])
      else
        Inl (NotImplementedError
               ''The specified parameter combination is not implemented: rotate=%r, translate=%r, scale=%r''
               param_info))"

text \<open>
  \<^verbatim>\<open>np.sqrt(np.sum((est_pts - tgt_pts) ** 2, axis=1))\<close> for two 2-d arrays of the same
  shape.
\<close>

definition residual_norms :: "ndarray \<Rightarrow> ndarray \<Rightarrow> vec" where
  "residual_norms est_pts tgt_pts =
     map2 (\<lambda>e t. sqrt (sum_list (map2 (\<lambda>a b. (a - b)\<^sup>2) e t))) (rows est_pts) (rows tgt_pts)"

text \<open>
  The error of the solution: \<^verbatim>\<open>src_pts\<close> is made homogeneous if it is not yet, and a
  residual norm above \<^verbatim>\<open>tol\<close> raises the \<^verbatim>\<open>RuntimeError\<close> that reports all norms.
\<close>

definition assess :: "bool \<Rightarrow> ndarray \<Rightarrow> ndarray \<Rightarrow> mat \<Rightarrow> real \<Rightarrow> error + unit" where
  "assess translate src_pts tgt_pts tr tol =
     (case (if \<not> translate then hstack_ones src_pts else Inr src_pts) of
        Inl e \<Rightarrow> Inl e
      | Inr src_h \<Rightarrow>
         (case dot_nd src_h (transpose tr) of
            Inl e \<Rightarrow> Inl e
          | Inr est \<Rightarrow>
             (let err = residual_norms (first3 est) tgt_pts
              in if (\<exists>e \<in> set err. e > tol)
                 then Inl (RuntimeError ''Error exceeds tolerance. Error = %r'' err)
                 else Inr ())))"

datatype fit_result = Params vec | Trans mat

text \<open>
  What follows the solver, from the estimate \<^verbatim>\<open>x\<close>: the matrix is rebuilt if a tolerance is
  given or the matrix is asked for, the tolerance is checked, and \<^verbatim>\<open>out\<close> selects the result.
\<close>

definition finish ::
  "bool \<times> bool \<times> int \<Rightarrow> ndarray \<Rightarrow> ndarray \<Rightarrow> real option \<Rightarrow> string \<Rightarrow> vec \<Rightarrow> error + fit_result" where
  "finish param_info src_pts tgt_pts tol out x =
     (case (if tol \<noteq> None \<or> out = ''trans''
            then map_sum id Some (trans_from_params param_info x) else Inr None) of
        Inl e \<Rightarrow> Inl e
      | Inr tr \<Rightarrow>
         (case (case tol of
                  None \<Rightarrow> Inr ()
                | Some t \<Rightarrow>
                   (case tr of
                      None \<Rightarrow> Inl (UnboundLocalError ''trans'')
                    | Some m \<Rightarrow> assess (fst (snd param_info)) src_pts tgt_pts m t)) of
            Inl e \<Rightarrow> Inl e
          | Inr _ \<Rightarrow>
             if out = ''params'' then Inr (Params x)
             else if out = ''trans'' then
               (case tr of None \<Rightarrow> Inl (UnboundLocalError ''trans'') | Some m \<Rightarrow> Inr (Trans m))
             else Inl (ValueError ''Invalid out parameter: %r. Needs to be 'params' or 'trans'.'')))"

text \<open>
  \<^verbatim>\<open>scipy.optimize.leastsq\<close> is a parameter of the model: from the residual function and the
  initial guess it returns the estimate, or raises (its own exceptions and those of the
  residual function).
\<close>

type_synonym solver = "(vec \<Rightarrow> error + vec) \<Rightarrow> vec \<Rightarrow> error + vec"

definition fit_matched_points ::
  "solver \<Rightarrow> ndarray \<Rightarrow> ndarray \<Rightarrow> bool \<Rightarrow> bool \<Rightarrow> int \<Rightarrow> real option \<Rightarrow> vec option \<Rightarrow> string
     \<Rightarrow> error + fit_result" where
  "fit_matched_points leastsq src_pts0 tgt_pts0 rotate' translate' scale' tol x0 out =
     (let src_pts = atleast_2d src_pts0; tgt_pts = atleast_2d tgt_pts0
      in if shape src_pts \<noteq> shape tgt_pts then
           Inl (ValueError ''src_pts and tgt_pts must have same shape (got {0}, {1})'')
         else
           (case (if translate' then hstack_ones src_pts else Inr src_pts) of
              Inl e \<Rightarrow> Inl e
            | Inr src_pts' \<Rightarrow>
               (case select_error (rotate', translate', scale') src_pts' tgt_pts of
                  Inl e \<Rightarrow> Inl e
                | Inr (err_fn, x0_default) \<Rightarrow>
                   (case leastsq err_fn (case x0 of None \<Rightarrow> x0_default | Some v \<Rightarrow> v) of
                      Inl e \<Rightarrow> Inl e
                    | Inr x \<Rightarrow> finish (rotate', translate', scale') src_pts' tgt_pts tol out x))))"


subsection \<open>\<^verbatim>\<open>get_ras_to_neuromag_trans\<close>\<close>

definition vsub :: "vec \<Rightarrow> vec \<Rightarrow> vec" where
  "vsub a b = map2 (-) a b"

definition vadd :: "vec \<Rightarrow> vec \<Rightarrow> vec" where
  "vadd a b = map2 (+) a b"

definition smul :: "real \<Rightarrow> vec \<Rightarrow> vec" where
  "smul c v = map (\<lambda>a. c * a) v"

definition vdot :: "vec \<Rightarrow> vec \<Rightarrow> real" where
  "vdot a b = sum_list (map2 (*) a b)"

text \<open>\<^verbatim>\<open>scipy.linalg.norm\<close> of a vector: the 2-norm.\<close>

definition linalg_norm :: "vec \<Rightarrow> real" where
  "linalg_norm v = sqrt (sum_list (map (\<lambda>a. a\<^sup>2) v))"

text \<open>\<^verbatim>\<open>np.cross\<close> of two vectors of length 3.\<close>

definition cross :: "vec \<Rightarrow> vec \<Rightarrow> vec" where
  "cross a b =
     [a ! 1 * b ! 2 - a ! 2 * b ! 1,
      a ! 2 * b ! 0 - a ! 0 * b ! 2,
      a ! 0 * b ! 1 - a ! 1 * b ! 0]"

text \<open>The check of one landmark: \<^verbatim>\<open>pt.ndim != 1 or len(pt) != 3\<close>.\<close>

definition bad_point :: "ndarray \<Rightarrow> bool" where
  "bad_point pt = (length (shape pt) \<noteq> 1 \<or> hd (shape pt) \<noteq> 3)"

text \<open>
  The function. If \<^verbatim>\<open>lpa\<close> and \<^verbatim>\<open>rpa\<close> coincide, \<^verbatim>\<open>right / norm(right)\<close> is a vector
  of \<^verbatim>\<open>nan\<close>, so are \<^verbatim>\<open>origin\<close> and \<^verbatim>\<open>anterior\<close>, and \<^verbatim>\<open>scipy.linalg.norm\<close> raises
  a \<^verbatim>\<open>ValueError\<close> on an array that is not finite. If the nasion lies on the line through
  \<^verbatim>\<open>lpa\<close> and \<^verbatim>\<open>rpa\<close>, \<^verbatim>\<open>anterior\<close> is zero and the matrix that is returned holds
  \<^verbatim>\<open>nan\<close>.
\<close>

definition get_ras_to_neuromag_trans :: "ndarray \<Rightarrow> ndarray \<Rightarrow> ndarray \<Rightarrow> error + mat" where
  "get_ras_to_neuromag_trans nasion lpa rpa =
     (if bad_point nasion \<or> bad_point lpa \<or> bad_point rpa then
        Inl (ValueError ''Points have to be provided as one dimensional arrays of length 3.'')
      else
        (let right = vsub (data rpa) (data lpa)
         in if linalg_norm right = 0 then
              Inl (ValueError ''array must not contain infs or NaNs'')
            else
              (let right_unit = map (\<lambda>a. a / linalg_norm right) right;
                   origin = vadd (data lpa)
                              (smul (vdot (vsub (data nasion) (data lpa)) right_unit) right_unit);
                   anterior = vsub (data nasion) origin
               in if linalg_norm anterior = 0 then Inl NaNResult
                  else
                    (let anterior_unit = map (\<lambda>a. a / linalg_norm anterior) anterior;
                         superior_unit = cross right_unit anterior_unit
                     in (case unpack3 (map uminus origin) of
                           Inl e \<Rightarrow> Inl e
                         | Inr (x, y, z) \<Rightarrow>
                            (let origin_trans = translation x y z;
                                 trans_l = [right_unit, anterior_unit, superior_unit, [0, 0, 0]];
                                 trans_r = [[0], [0], [0], [1]];
                                 rot_trans = map2 (@) trans_l trans_r
                             in dot rot_trans origin_trans))))))"

subsection \<open>\<^verbatim>\<open>_decimate_points\<close>\<close>

text \<open>
  The points are an array of shape (n_points, 3), given by its rows.
\<close>

type_synonym point = "real \<times> real \<times> real"

definition px :: "point \<Rightarrow> real" where "px p = fst p"
definition py :: "point \<Rightarrow> real" where "py p = fst (snd p)"
definition pz :: "point \<Rightarrow> real" where "pz p = snd (snd p)"

text \<open>Minimum and maximum of a non-empty column.\<close>

definition amin :: "real list \<Rightarrow> real" where
  "amin xs = fold min (tl xs) (hd xs)"

definition amax :: "real list \<Rightarrow> real" where
  "amax xs = fold max (tl xs) (hd xs)"

text \<open>
  \<^verbatim>\<open>np.arange(start, stop, step)\<close> for a positive step: the values \<^verbatim>\<open>start + k * step\<close>
  for \<^verbatim>\<open>k\<close> below \<^verbatim>\<open>ceil((stop - start) / step)\<close>. In exact arithmetic; the function
  below calls it only where the doubles are exact as well.
\<close>

definition arange :: "real \<Rightarrow> real \<Rightarrow> real \<Rightarrow> real list" where
  "arange start stop step =
     map (\<lambda>k. start + real k * step) [0..<nat \<lceil>(stop - start) / step\<rceil>]"

text \<open>
  \<^verbatim>\<open>np.histogramdd\<close> with explicit, increasing bin edges. \<^verbatim>\<open>digitize\<close> counts the edges
  that are at most the value; a value equal to the last edge is moved into the last bin; a
  value below the first edge or above the last one is an outlier and is not counted. Bins are
  numbered from 0.
\<close>

definition digitize :: "real list \<Rightarrow> real \<Rightarrow> nat" where
  "digitize edges v = length (filter (\<lambda>e. e \<le> v) edges)"

definition bin_index :: "real list \<Rightarrow> real \<Rightarrow> nat option" where
  "bin_index edges v =
     (let c = (if v = last edges then digitize edges v - 1 else digitize edges v)
      in if c = 0 \<or> c = length edges then None else Some (c - 1))"

definition bin3 :: "real list \<times> real list \<times> real list \<Rightarrow> point \<Rightarrow> (nat \<times> nat \<times> nat) option" where
  "bin3 edges p =
     (case edges of (xax, yax, zax) \<Rightarrow>
        (case (bin_index xax (px p), bin_index yax (py p), bin_index zax (pz p)) of
           (Some i, Some j, Some k) \<Rightarrow> Some (i, j, k)
         | _ \<Rightarrow> None))"

definition histogramdd :: "point list \<Rightarrow> real list \<times> real list \<times> real list \<Rightarrow> nat \<times> nat \<times> nat \<Rightarrow> nat" where
  "histogramdd pts edges b = length (filter (\<lambda>p. bin3 edges p = Some b) pts)"

text \<open>
  \<^verbatim>\<open>zip(*np.nonzero(H))\<close> for a histogram of the given shape: the indices of the non-zero
  counts in row-major order.
\<close>

definition nonzero :: "(nat \<times> nat \<times> nat \<Rightarrow> nat) \<Rightarrow> nat \<times> nat \<times> nat \<Rightarrow> (nat \<times> nat \<times> nat) list" where
  "nonzero H dims =
     (case dims of (nx, ny, nz) \<Rightarrow>
        filter (\<lambda>b. H b \<noteq> 0) (List.product [0..<nx] (List.product [0..<ny] [0..<nz])))"

text \<open>\<^verbatim>\<open>np.argmin\<close> of a non-empty sequence: the first index of the minimum.\<close>

fun argmin :: "real list \<Rightarrow> nat" where
  "argmin [] = 0"
| "argmin [x] = 0"
| "argmin (x # y # ys) = (let i = argmin (y # ys) in if x \<le> (y # ys) ! i then 0 else Suc i)"

text \<open>\<^verbatim>\<open>cdist(ipts, [mid])\<close>: the Euclidean distance of each point to \<^verbatim>\<open>mid\<close>.\<close>

definition cdist :: "point list \<Rightarrow> point \<Rightarrow> real list" where
  "cdist ipts mid =
     map (\<lambda>p. sqrt ((px p - px mid)\<^sup>2 + (py p - py mid)\<^sup>2 + (pz p - pz mid)\<^sup>2)) ipts"

text \<open>
  The body of the loop for the voxel whose lower corner is (x, y, z): the points inside the
  half-open voxel, and of these the first one closest to the centre. \<^verbatim>\<open>np.argmin\<close> raises
  on an empty sequence.
\<close>

definition in_voxel :: "real \<Rightarrow> real \<Rightarrow> real \<Rightarrow> real \<Rightarrow> point \<Rightarrow> bool" where
  "in_voxel res x y z p =
     ((pz p \<ge> z \<and> pz p < z + res) \<and> (py p \<ge> y \<and> py p < y + res) \<and> (px p \<ge> x \<and> px p < x + res))"

definition select_point :: "point list \<Rightarrow> real \<Rightarrow> real \<Rightarrow> real \<Rightarrow> real \<Rightarrow> error + point" where
  "select_point pts res x y z =
     (let ipts = filter (in_voxel res x y z) pts;
          mid = (x + res / 2, y + res / 2, z + res / 2);
          dist = cdist ipts mid
      in if ipts = [] then Inl (ValueError ''attempt to get argmin of an empty sequence'')
         else Inr (ipts ! argmin dist))"

fun select_points ::
  "point list \<Rightarrow> real \<Rightarrow> real list \<times> real list \<times> real list \<Rightarrow> (nat \<times> nat \<times> nat) list
     \<Rightarrow> error + point list" where
  "select_points pts res edges [] = Inr []"
| "select_points pts res edges (b # bs) =
     (case (edges, b) of ((xax, yax, zax), (xbin, ybin, zbin)) \<Rightarrow>
        (case select_point pts res (xax ! xbin) (yax ! ybin) (zax ! zbin) of
           Inl e \<Rightarrow> Inl e
         | Inr ipt \<Rightarrow>
            (case select_points pts res edges bs of
               Inl e \<Rightarrow> Inl e
             | Inr out \<Rightarrow> Inr (ipt # out))))"

text \<open>The bin edges of the voxel space.\<close>

definition bin_edges :: "point list \<Rightarrow> real \<Rightarrow> real list \<times> real list \<times> real list" where
  "bin_edges pts res =
     (let xmin = amin (map px pts) - res / 2;
          ymin = amin (map py pts) - res / 2;
          zmin = amin (map pz pts) - res / 2;
          xmax = amax (map px pts) + res;
          ymax = amax (map py pts) + res;
          zmax = amax (map pz pts) + res
      in (arange xmin xmax res, arange ymin ymax res, arange zmin zmax res))"

text \<open>
  The inputs of the model: a positive integer resolution and integer coordinates, all of
  magnitude at most 2 ^ 16. On these every value that the function computes before the
  square root is a multiple of 1/4 far below 2 ^ 53, hence exact in double precision (the
  bin edges \<^verbatim>\<open>start + k * res\<close> and the bounds \<^verbatim>\<open>x + res\<close> in particular), the quotient
  that gives the number of edges is rounded by much less than its distance to the next
  integer, and the square roots of different sums of squares are different doubles in the
  same order, so that the comparisons and \<^verbatim>\<open>argmin\<close> of the program are those of exact
  arithmetic.
\<close>

definition is_int :: "real \<Rightarrow> bool" where
  "is_int x = (of_int \<lfloor>x\<rfloor> = x)"

definition exact_coord :: "real \<Rightarrow> bool" where
  "exact_coord x = (is_int x \<and> \<bar>x\<bar> \<le> 2 ^ 16)"

definition exact_input :: "point list \<Rightarrow> real \<Rightarrow> bool" where
  "exact_input pts res =
     (0 < res \<and> exact_coord res \<and>
      (\<forall>p \<in> set pts. exact_coord (px p) \<and> exact_coord (py p) \<and> exact_coord (pz p)))"

text \<open>
  The function. The minimum of an empty array raises. A resolution that is not positive and
  an input that is not exact in the sense above are outside the model.
\<close>

definition decimate_points :: "point list \<Rightarrow> real \<Rightarrow> error + point list" where
  "decimate_points pts res =
     (if pts = [] then Inl (ValueError ''zero-size array to reduction operation minimum'')
      else if \<not> exact_input pts res then Inl OutsideModel
      else
        (case bin_edges pts res of (xax, yax, zax) \<Rightarrow>
           (let H = histogramdd pts (xax, yax, zax)
            in select_points pts res (xax, yax, zax)
                 (nonzero H (length xax - 1, length yax - 1, length zax - 1)))))"


subsection \<open>Notions used in the statements\<close>

text \<open>The identity transform, and a matrix applied to a column vector.\<close>

definition id4 :: mat where
  "id4 = [[1, 0, 0, 0], [0, 1, 0, 0], [0, 0, 1, 0], [0, 0, 0, 1]]"

definition matvec :: "mat \<Rightarrow> vec \<Rightarrow> vec" where
  "matvec A v = map (\<lambda>r. sum_list (map2 (*) r v)) A"

text \<open>
  The layout of a parameter vector under a descriptor (do_rotate, do_translate, do_scale):
  three angles if do_rotate, then three offsets if do_translate, then one or three factors if
  do_scale is 1 or 3. The three matrices below are the factors that the descriptor and the
  vector name; a component that is not active contributes the identity.
\<close>

definition rot_off :: "bool \<Rightarrow> nat" where
  "rot_off r = (if r then 3 else 0)"

definition scl_off :: "bool \<Rightarrow> bool \<Rightarrow> nat" where
  "scl_off r t = rot_off r + (if t then 3 else 0)"

definition n_params :: "bool \<times> bool \<times> int \<Rightarrow> nat" where
  "n_params pinfo =
     (case pinfo of (r, t, s) \<Rightarrow> scl_off r t + (if s = 1 then 1 else if s = 3 then 3 else 0))"

definition rotate_matrix :: "bool \<times> bool \<times> int \<Rightarrow> real list \<Rightarrow> mat" where
  "rotate_matrix pinfo ps =
     (case pinfo of (r, t, s) \<Rightarrow> if r then rotation (ps ! 0) (ps ! 1) (ps ! 2) else id4)"

definition translate_matrix :: "bool \<times> bool \<times> int \<Rightarrow> real list \<Rightarrow> mat" where
  "translate_matrix pinfo ps =
     (case pinfo of (r, t, s) \<Rightarrow>
        if t then translation (ps ! rot_off r) (ps ! (rot_off r + 1)) (ps ! (rot_off r + 2))
        else id4)"

definition scale_matrix :: "bool \<times> bool \<times> int \<Rightarrow> real list \<Rightarrow> mat" where
  "scale_matrix pinfo ps =
     (case pinfo of (r, t, s) \<Rightarrow>
        if s = 1 then scaling (ps ! scl_off r t) (ps ! scl_off r t) (ps ! scl_off r t)
        else if s = 3 then
          scaling (ps ! scl_off r t) (ps ! (scl_off r t + 1)) (ps ! (scl_off r t + 2))
        else id4)"

text \<open>A 4 x 4 matrix whose bottom row is [0, 0, 0, 1].\<close>

definition hom4 :: "mat \<Rightarrow> bool" where
  "hom4 m =
     (\<exists>a b c d e f g h i j k l.
        m = [[a, b, c, d], [e, f, g, h], [i, j, k, l], [0, 0, 0, 1]])"

text \<open>
  The four combinations of (rotate, translate, scale) that the spec lists for
  \<^verbatim>\<open>fit_matched_points\<close>, and the message of the error for any other one.
\<close>

definition supported :: "(bool \<times> bool \<times> int) set" where
  "supported = {(True, False, 0), (True, False, 1), (True, True, 0), (True, True, 1)}"

abbreviation nie_msg :: string where
  "nie_msg \<equiv>
     ''The specified parameter combination is not implemented: rotate=%r, translate=%r, scale=%r''"


text \<open>The rotation block and the translation column of a homogeneous matrix.\<close>

definition rotation_part :: "mat \<Rightarrow> mat" where
  "rotation_part m = map (take 3) (take 3 m)"

definition translation_part :: "mat \<Rightarrow> vec" where
  "translation_part m = map (\<lambda>r. r ! 3) (take 3 m)"

text \<open>
  The residual norm of one matched pair under a transform: the distance between the target
  point and the transform applied to the homogeneous source point; and the norms of all
  pairs of two arrays of points.
\<close>

definition point_residual :: "mat \<Rightarrow> vec \<Rightarrow> vec \<Rightarrow> real" where
  "point_residual m p q =
     sqrt (sum_list (map2 (\<lambda>a b. (a - b)\<^sup>2) (take 3 (matvec m (p @ [1]))) q))"

definition fitted_residuals :: "mat \<Rightarrow> ndarray \<Rightarrow> ndarray \<Rightarrow> vec" where
  "fitted_residuals m src tgt = map2 (point_residual m) (rows src) (rows tgt)"

text \<open>An array of n points with a column of ones appended.\<close>

definition homogeneous :: "ndarray \<Rightarrow> ndarray" where
  "homogeneous a =
     \<lparr>shape = [hd (shape a), 4], data = concat (map (\<lambda>r. r @ [1]) (rows a))\<rparr>"



text \<open>The solver that returns its initial guess, used in the examples.\<close>

definition guess_solver :: solver where
  "guess_solver f v = Inr v"

section \<open>Properties of \<^verbatim>\<open>_trans_from_params\<close>\<close>

lemmas helper_defs = rotation_def translation_def scaling_def id4_def

lemmas tfp_defs = trans_from_params_def step_rotate_def step_translate_def step_scale_def
  reduce_dot_def dot_def matmul_def unpack3_def getitem_def

lemma take3_drop:
  "i + 3 \<le> length ps \<Longrightarrow> take 3 (drop i ps) = [ps ! i, ps ! (i + 1), ps ! (i + 2)]"
  by (simp add: list_eq_iff_nth_eq nth_Cons' numeral_3_eq_3 less_Suc_eq add.commute)

lemma unpack3_take_drop:
  "i + 3 \<le> length ps \<Longrightarrow>
   unpack3 (take 3 (drop i ps)) = Inr (ps ! i, ps ! (i + 1), ps ! (i + 2))"
  by (simp add: take3_drop unpack3_def)

text \<open>
  The list that the function folds is translation, rotation, scaling in this order, whatever
  the order of the three steps: the product is translate . rotate . scale.
\<close>

lemma trans_from_params_product:
  assumes "r \<or> t \<or> s = 1 \<or> s = 3" and "n_params (r, t, s) \<le> length ps"
  shows "trans_from_params (r, t, s) ps =
     Inr (matmul (matmul (translate_matrix (r, t, s) ps) (rotate_matrix (r, t, s) ps))
            (scale_matrix (r, t, s) ps))"
proof -
  have R: "r \<Longrightarrow> unpack3 (take 3 ps) = Inr (ps ! 0, ps ! 1, ps ! 2)"
    using assms(2) unpack3_take_drop[of 0 ps]
    by (simp add: n_params_def scl_off_def rot_off_def numeral_2_eq_2)
  have T: "t \<Longrightarrow> unpack3 (take 3 (drop (rot_off r) ps)) =
      Inr (ps ! rot_off r, ps ! (rot_off r + 1), ps ! (rot_off r + 2))"
    using assms(2)
    by (intro unpack3_take_drop) (simp add: n_params_def scl_off_def rot_off_def split: if_splits)
  have S3: "s = 3 \<Longrightarrow> unpack3 (take 3 (drop (scl_off r t) ps)) =
      Inr (ps ! scl_off r t, ps ! (scl_off r t + 1), ps ! (scl_off r t + 2))"
    using assms(2) by (intro unpack3_take_drop) (simp add: n_params_def)
  have S1: "s = 1 \<Longrightarrow> getitem ps (scl_off r t) = Inr (ps ! scl_off r t)"
    using assms(2) by (simp add: n_params_def getitem_def)
  note defs = trans_from_params_def step_rotate_def step_translate_def step_scale_def
    reduce_dot_def dot_def matmul_def helper_defs rotate_matrix_def translate_matrix_def
    scale_matrix_def rot_off_def scl_off_def
  show ?thesis
  proof (cases r)
    case True
    note r = this
    show ?thesis
    proof (cases t)
      case True
      with r R T S1 S3 show ?thesis by (simp add: defs)
    next
      case False
      with r R T S1 S3 show ?thesis by (simp add: defs)
    qed
  next
    case False
    note r = this
    show ?thesis
    proof (cases t)
      case True
      with r R T S1 S3 show ?thesis by (simp add: defs)
    next
      case False
      with r R T S1 S3 assms(1) show ?thesis by (auto simp add: defs)
    qed
  qed
qed

text \<open>Applying a product of the three factors is applying them one after the other.\<close>

lemma matvec_product:
  "matvec (matmul (matmul (translate_matrix pinfo ps) (rotate_matrix pinfo ps))
             (scale_matrix pinfo ps)) [x, y, z, 1] =
   matvec (translate_matrix pinfo ps)
     (matvec (rotate_matrix pinfo ps) (matvec (scale_matrix pinfo ps) [x, y, z, 1]))"
  by (cases pinfo)
    (simp add: matvec_def matmul_def helper_defs rotate_matrix_def translate_matrix_def
      scale_matrix_def algebra_simps)

text \<open>Products of homogeneous matrices are homogeneous.\<close>

lemma hom4_helpers: "hom4 (rotation x y z)" "hom4 (translation x y z)" "hom4 (scaling x y z)"
  unfolding hom4_def rotation_def translation_def scaling_def by blast+

lemma hom4_dot:
  assumes "hom4 A" and "hom4 B"
  shows "\<exists>C. dot A B = Inr C \<and> hom4 C"
proof -
  from assms(1) obtain a b c d e f g h i j k l
    where A: "A = [[a, b, c, d], [e, f, g, h], [i, j, k, l], [0, 0, 0, 1]]"
    unfolding hom4_def by blast
  from assms(2) obtain a' b' c' d' e' f' g' h' i' j' k' l'
    where B: "B = [[a', b', c', d'], [e', f', g', h'], [i', j', k', l'], [0, 0, 0, 1]]"
    unfolding hom4_def by blast
  show ?thesis
    unfolding A B hom4_def by (simp add: dot_def matmul_def)
qed

lemma hom4_reduce_from:
  "hom4 acc \<Longrightarrow> \<forall>m \<in> set ms. hom4 m \<Longrightarrow> \<exists>C. reduce_from acc ms = Inr C \<and> hom4 C"
proof (induction ms arbitrary: acc)
  case Nil
  then show ?case by simp
next
  case (Cons m ms)
  from Cons.prems obtain C where C: "dot acc m = Inr C" "hom4 C"
    using hom4_dot[of acc m] by auto
  with Cons.IH[of C] Cons.prems show ?case by simp
qed

lemma hom4_reduce_dot:
  assumes "reduce_dot ms = Inr m" and "\<forall>m \<in> set ms. hom4 m"
  shows "hom4 m"
proof (cases ms)
  case Nil
  with assms(1) show ?thesis by (simp add: reduce_dot_def)
next
  case (Cons a as)
  with assms(2) have "hom4 a" "\<forall>m \<in> set as. hom4 m" by simp_all
  then obtain C where "reduce_from a as = Inr C" "hom4 C"
    using hom4_reduce_from by blast
  with assms(1) Cons show ?thesis by (simp add: reduce_dot_def)
qed

lemma step_rotate_hom4:
  "step_rotate r ps = Inr (i, ms) \<Longrightarrow> \<forall>m \<in> set ms. hom4 m"
  by (auto simp: step_rotate_def hom4_helpers split: if_splits sum.splits)

lemma step_translate_hom4:
  "step_translate t ps (i, ms) = Inr (i', ms') \<Longrightarrow> \<forall>m \<in> set ms. hom4 m \<Longrightarrow>
   \<forall>m \<in> set ms'. hom4 m"
  by (auto simp: step_translate_def hom4_helpers split: if_splits sum.splits)

lemma step_scale_hom4:
  "step_scale s ps (i, ms) = Inr ms' \<Longrightarrow> \<forall>m \<in> set ms. hom4 m \<Longrightarrow> \<forall>m \<in> set ms'. hom4 m"
  by (auto simp: step_scale_def hom4_helpers split: if_splits sum.splits)

lemma trans_from_params_hom4:
  assumes "trans_from_params pinfo ps = Inr m"
  shows "hom4 m"
proof -
  obtain r t s where p: "pinfo = (r, t, s)" by (cases pinfo) auto
  from assms p obtain i1 ms1 i2 ms2 ms3 where
    1: "step_rotate r ps = Inr (i1, ms1)" and
    2: "step_translate t ps (i1, ms1) = Inr (i2, ms2)" and
    3: "step_scale s ps (i2, ms2) = Inr ms3" and
    4: "reduce_dot ms3 = Inr m"
    by (auto simp: trans_from_params_def split: sum.splits)
  from 1 have "\<forall>m \<in> set ms1. hom4 m" by (rule step_rotate_hom4)
  with 2 have "\<forall>m \<in> set ms2. hom4 m" by (rule step_translate_hom4)
  with 3 have "\<forall>m \<in> set ms3. hom4 m" by (rule step_scale_hom4)
  with 4 show ?thesis by (rule hom4_reduce_dot)
qed

text \<open>No step of the function raises a \<^verbatim>\<open>NotImplementedError\<close>.\<close>

lemma unpack3_not_nie: "unpack3 xs = Inl e \<Longrightarrow> e \<noteq> NotImplementedError msg c"
  by (auto simp: unpack3_def split: list.splits)

lemma getitem_not_nie: "getitem xs i = Inl e \<Longrightarrow> e \<noteq> NotImplementedError msg c"
  by (auto simp: getitem_def split: if_splits)

lemma step_rotate_not_nie: "step_rotate r ps = Inl e \<Longrightarrow> e \<noteq> NotImplementedError msg c"
  by (auto simp: step_rotate_def split: if_splits sum.splits dest: unpack3_not_nie)

lemma step_translate_not_nie:
  "step_translate t ps st = Inl e \<Longrightarrow> e \<noteq> NotImplementedError msg c"
  by (cases st) (auto simp: step_translate_def split: if_splits sum.splits dest: unpack3_not_nie)

lemma step_scale_not_nie: "step_scale s ps st = Inl e \<Longrightarrow> e \<noteq> NotImplementedError msg c"
  by (cases st)
    (auto simp: step_scale_def split: if_splits sum.splits dest: unpack3_not_nie getitem_not_nie)

lemma reduce_from_not_nie: "reduce_from acc ms = Inl e \<Longrightarrow> e \<noteq> NotImplementedError msg c"
  by (induction ms arbitrary: acc) (auto simp: dot_def split: sum.splits if_splits)

lemma reduce_dot_not_nie: "reduce_dot ms = Inl e \<Longrightarrow> e \<noteq> NotImplementedError msg c"
  by (auto simp: reduce_dot_def split: list.splits dest: reduce_from_not_nie)

lemma trans_from_params_not_nie:
  assumes "trans_from_params pinfo ps = Inl e"
  shows "e \<noteq> NotImplementedError msg c"
proof -
  obtain r t s where p: "pinfo = (r, t, s)" by (cases pinfo) auto
  from assms consider
      "step_rotate r ps = Inl e"
    | st1 where "step_translate t ps st1 = Inl e"
    | st2 where "step_scale s ps st2 = Inl e"
    | ms where "reduce_dot ms = Inl e"
    by (auto simp: trans_from_params_def p split: sum.splits)
  then show ?thesis
    by cases
      (auto dest: step_rotate_not_nie step_translate_not_nie step_scale_not_nie reduce_dot_not_nie)
qed

lemma trans_from_params_empty:
  "\<not> r \<Longrightarrow> \<not> t \<Longrightarrow> s \<noteq> 1 \<Longrightarrow> s \<noteq> 3 \<Longrightarrow>
   trans_from_params (r, t, s) ps =
     Inl (TypeError ''reduce() of empty sequence with no initial value'')"
  by (simp add: trans_from_params_def step_rotate_def step_translate_def step_scale_def
      reduce_dot_def)

lemma trans_from_params_scale_ignored:
  assumes "s \<noteq> 1" "s \<noteq> 3"
  shows "trans_from_params (r, t, s) ps = trans_from_params (r, t, 0) ps"
proof -
  from assms have "step_scale s ps st = step_scale 0 ps st" for st
    by (cases st) (simp add: step_scale_def)
  then show ?thesis by (simp add: trans_from_params_def cong: sum.case_cong)
qed

lemma tfp_example:
  "trans_from_params (True, True, 1) [0, 0, 0, 1, 0, 0, 2] =
     Inr [[2, 0, 0, 1], [0, 2, 0, 0], [0, 0, 2, 0], [0, 0, 0, 1]]"
  by (simp add: tfp_defs helper_defs)

text \<open>
  Claim C1, as the spec states it: for every supported descriptor and parameter vector the
  matrix of \<^verbatim>\<open>_trans_from_params\<close> is scale_matrix . translate_matrix . rotate_matrix. It
  fails for rotation (0, 0, 0), translation (1, 0, 0) and scale 2: the function returns the
  matrix that maps x to 2 x + 1, and the product in the order of the claim maps x to 2 x + 2.
\<close>

theorem trans_from_params_order_counterexample:
  "trans_from_params (True, True, 1) [0, 0, 0, 1, 0, 0, 2] \<noteq>
     Inr (matmul (matmul (scale_matrix (True, True, 1) [0, 0, 0, 1, 0, 0, 2])
                    (translate_matrix (True, True, 1) [0, 0, 0, 1, 0, 0, 2]))
            (rotate_matrix (True, True, 1) [0, 0, 0, 1, 0, 0, 2]))"
  by (simp add: tfp_example matmul_def helper_defs rotate_matrix_def translate_matrix_def
      scale_matrix_def rot_off_def scl_off_def)

text \<open>
  Claim C1, amended: for every descriptor with at least one active component and every
  parameter vector that holds the parameters of the descriptor, \<^verbatim>\<open>_trans_from_params\<close>
  returns translate_matrix . rotate_matrix . scale_matrix; applied to a homogeneous point
  (x, y, z, 1) this matrix scales first, then rotates, then translates.
\<close>

theorem trans_from_params_order:
  assumes "r \<or> t \<or> s = 1 \<or> s = 3" and "n_params (r, t, s) \<le> length ps"
  shows "\<exists>m. trans_from_params (r, t, s) ps = Inr m
     \<and> m = matmul (matmul (translate_matrix (r, t, s) ps) (rotate_matrix (r, t, s) ps))
              (scale_matrix (r, t, s) ps)
     \<and> (\<forall>x y z. matvec m [x, y, z, 1] =
          matvec (translate_matrix (r, t, s) ps)
            (matvec (rotate_matrix (r, t, s) ps)
               (matvec (scale_matrix (r, t, s) ps) [x, y, z, 1])))"
  using trans_from_params_product[OF assms] matvec_product[of "(r, t, s)" ps] by simp

theorem trans_from_params_order_witness:
  "(True \<or> True \<or> (1::int) = 1 \<or> (1::int) = 3)
   \<and> n_params (True, True, 1) \<le> length [0, 0, 0, 1, 0, 0, 2::real]
   \<and> trans_from_params (True, True, 1) [0, 0, 0, 1, 0, 0, 2] =
       Inr [[2, 0, 0, 1], [0, 2, 0, 0], [0, 0, 2, 0], [0, 0, 0, 1]]
   \<and> matvec [[2, 0, 0, 1], [0, 2, 0, 0], [0, 0, 2, 0], [0, 0, 0, 1]] [1, 1, 1, 1] = [3, 2, 2, 1]"
proof -
  have h1: "True \<or> True \<or> (1::int) = 1 \<or> (1::int) = 3" by simp
  have h2: "n_params (True, True, 1) \<le> length [0, 0, 0, 1, 0, 0, 2::real]"
    by (simp add: n_params_def scl_off_def rot_off_def)
  from trans_from_params_order[OF h1 h2] obtain m
    where m: "trans_from_params (True, True, 1) [0, 0, 0, 1, 0, 0, 2] = Inr m"
    by blast
  with tfp_example have "m = [[2, 0, 0, 1], [0, 2, 0, 0], [0, 0, 2, 0], [0, 0, 0, 1]]"
    by simp
  with m h2 show ?thesis by (simp add: matvec_def)
qed

text \<open>
  Claim C7: the matrix that \<^verbatim>\<open>_trans_from_params\<close> returns, for any descriptor and
  parameter vector, is 4 x 4 and its bottom row is exactly [0, 0, 0, 1].
\<close>

theorem trans_from_params_bottom_row:
  assumes "trans_from_params pinfo ps = Inr m"
  shows "length m = 4 \<and> (\<forall>row \<in> set m. length row = 4) \<and> m ! 3 = [0, 0, 0, 1]"
  using trans_from_params_hom4[OF assms] unfolding hom4_def by auto

theorem trans_from_params_bottom_row_witness:
  "trans_from_params (True, True, 1) [0, 0, 0, 1, 0, 0, 2] =
     Inr [[2, 0, 0, 1], [0, 2, 0, 0], [0, 0, 2, 0], [0, 0, 0, 1]]
   \<and> length [[2, 0, 0, 1], [0, 2, 0, 0], [0, 0, 2, 0], [0, 0, 0, 1::real]] = 4
   \<and> [[2, 0, 0, 1], [0, 2, 0, 0], [0, 0, 2, 0], [0, 0, 0, 1::real]] ! 3 = [0, 0, 0, 1]"
  using trans_from_params_bottom_row[OF tfp_example] tfp_example by simp

text \<open>
  Claim C9, as the spec states it: a descriptor outside the implemented set makes
  \<^verbatim>\<open>_trans_from_params\<close> fail with an UnsupportedConfiguration error. It fails for
  do_scale = 2 with rotation only: the function returns the rotation matrix.
\<close>

theorem trans_from_params_unsupported_counterexample:
  "trans_from_params (True, False, 2) [0, 0, 0] =
     Inr [[1, 0, 0, 0], [0, 1, 0, 0], [0, 0, 1, 0], [0, 0, 0, 1]]"
  by (simp add: tfp_defs helper_defs)

text \<open>
  Claim C9, amended: \<^verbatim>\<open>_trans_from_params\<close> never raises the \<^verbatim>\<open>NotImplementedError\<close> of
  an unsupported configuration. A value of do_scale other than 1 and 3 is taken as no scaling,
  and a descriptor with no active component fails with the \<^verbatim>\<open>TypeError\<close> of \<^verbatim>\<open>reduce\<close> on
  an empty list.
\<close>

theorem trans_from_params_no_unsupported_error:
  "(\<forall>msg c. trans_from_params (r, t, s) ps \<noteq> Inl (NotImplementedError msg c))
   \<and> (s \<noteq> 1 \<and> s \<noteq> 3 \<longrightarrow> trans_from_params (r, t, s) ps = trans_from_params (r, t, 0) ps)
   \<and> (\<not> r \<and> \<not> t \<and> s \<noteq> 1 \<and> s \<noteq> 3 \<longrightarrow>
        trans_from_params (r, t, s) ps =
          Inl (TypeError ''reduce() of empty sequence with no initial value''))"
  using trans_from_params_not_nie[of "(r, t, s)" ps]
    trans_from_params_scale_ignored[of s r t ps] trans_from_params_empty[of r t s ps]
  by blast

theorem trans_from_params_no_unsupported_error_witness:
  "(2::int) \<noteq> 1 \<and> (2::int) \<noteq> 3 \<and> \<not> False
   \<and> trans_from_params (False, False, 2) [] = trans_from_params (False, False, 0) []
   \<and> trans_from_params (False, False, 2) [] =
        Inl (TypeError ''reduce() of empty sequence with no initial value'')"
  using trans_from_params_no_unsupported_error[of False False 2 "[]"] by auto


section \<open>Properties of \<^verbatim>\<open>fit_matched_points\<close> and \<^verbatim>\<open>get_ras_to_neuromag_trans\<close>\<close>

subsection \<open>The stages of \<^verbatim>\<open>fit_matched_points\<close>\<close>

lemma atleast_2d_2d: "shape a = [n, k] \<Longrightarrow> atleast_2d a = a"
  by (simp add: atleast_2d_def)

lemma atleast_2d_id: "2 \<le> length (shape a) \<Longrightarrow> atleast_2d a = a"
  by (auto simp: atleast_2d_def split: list.splits)

lemma fit_shape_mismatch:
  "shape (atleast_2d src) \<noteq> shape (atleast_2d tgt) \<Longrightarrow>
   fit_matched_points leastsq src tgt r t s tol x0 out =
     Inl (ValueError ''src_pts and tgt_pts must have same shape (got {0}, {1})'')"
  by (simp add: fit_matched_points_def Let_def)

lemma fit_stage_hstack_error:
  assumes "shape (atleast_2d src) = shape (atleast_2d tgt)"
    and "(if t then hstack_ones (atleast_2d src) else Inr (atleast_2d src)) = Inl e"
  shows "fit_matched_points leastsq src tgt r t s tol x0 out = Inl e"
  using assms by (simp add: fit_matched_points_def Let_def)

lemma fit_stage_select:
  assumes "shape (atleast_2d src) = shape (atleast_2d tgt)"
    and "(if t then hstack_ones (atleast_2d src) else Inr (atleast_2d src)) = Inr src'"
  shows "fit_matched_points leastsq src tgt r t s tol x0 out =
     (case select_error (r, t, s) src' (atleast_2d tgt) of
        Inl e \<Rightarrow> Inl e
      | Inr (f, v) \<Rightarrow>
         (case leastsq f (case x0 of None \<Rightarrow> v | Some w \<Rightarrow> w) of
            Inl e \<Rightarrow> Inl e
          | Inr x \<Rightarrow> finish (r, t, s) src' (atleast_2d tgt) tol out x))"
  using assms by (simp add: fit_matched_points_def Let_def)

lemma select_error_supported:
  "pinfo \<in> supported \<Longrightarrow> \<exists>f v. select_error pinfo src tgt = Inr (f, v)"
  by (auto simp: select_error_def supported_def)

lemma select_error_unsupported:
  "pinfo \<notin> supported \<Longrightarrow> select_error pinfo src tgt = Inl (NotImplementedError nie_msg pinfo)"
  by (auto simp: select_error_def supported_def)

lemma hstack_ones_2d: "length (shape a) = 2 \<Longrightarrow> \<exists>b. hstack_ones a = Inr b"
  by (cases "shape a" rule: list.exhaust; simp add: hstack_ones_def split: list.splits)
    (auto simp: hstack_ones_def split: list.splits)

lemma hstack_ones_error:
  "hstack_ones a = Inl e \<Longrightarrow> e = ValueError ''arrays must have same number of dimensions''"
  by (auto simp: hstack_ones_def split: list.splits)

lemma dot_nd_error: "dot_nd a B = Inl e \<Longrightarrow> e = ValueError ''shapes not aligned''"
  by (auto simp: dot_nd_def split: if_splits)

lemma fit_unsupported:
  assumes "shape (atleast_2d src) = shape (atleast_2d tgt)"
    and "length (shape (atleast_2d src)) = 2"
    and "(r, t, s) \<notin> supported"
  shows "fit_matched_points leastsq src tgt r t s tol x0 out =
     Inl (NotImplementedError nie_msg (r, t, s))"
proof -
  from assms(2) obtain b where "hstack_ones (atleast_2d src) = Inr b"
    using hstack_ones_2d by blast
  then obtain src' where
    "(if t then hstack_ones (atleast_2d src) else Inr (atleast_2d src)) = Inr src'"
    by (cases t) simp_all
  from fit_stage_select[OF assms(1) this] assms(3) show ?thesis
    by (simp add: select_error_unsupported)
qed

lemma assess_not_nie: "assess t src tgt m tol = Inl e \<Longrightarrow> e \<noteq> NotImplementedError msg c"
  by (auto simp: assess_def Let_def split: if_splits sum.splits
      dest!: hstack_ones_error dot_nd_error)

lemma finish_not_nie:
  "finish pinfo src tgt tol out x = Inl e \<Longrightarrow> e \<noteq> NotImplementedError msg c"
  by (auto simp: finish_def map_sum_def split: if_splits sum.splits option.splits
      dest: trans_from_params_not_nie assess_not_nie)

lemma fit_supported:
  assumes "(r, t, s) \<in> supported"
    and "\<And>f v msg c. leastsq f v \<noteq> Inl (NotImplementedError msg c)"
  shows "fit_matched_points leastsq src tgt r t s tol x0 out \<noteq> Inl (NotImplementedError msg c)"
proof (cases "shape (atleast_2d src) = shape (atleast_2d tgt)")
  case False
  then show ?thesis by (simp add: fit_matched_points_def Let_def)
next
  case eq: True
  show ?thesis
  proof (cases "if t then hstack_ones (atleast_2d src) else Inr (atleast_2d src)")
    case (Inl e)
    with fit_stage_hstack_error[OF eq Inl] show ?thesis
      by (auto split: if_splits dest!: hstack_ones_error)
  next
    case stacked: (Inr src')
    from assms(1) obtain f v
      where fv: "select_error (r, t, s) src' (atleast_2d tgt) = Inr (f, v)"
      using select_error_supported by blast
    show ?thesis
    proof (cases "leastsq f (case x0 of None \<Rightarrow> v | Some w \<Rightarrow> w)")
      case (Inl e)
      with fit_stage_select[OF eq stacked] fv
        assms(2)[of f "case x0 of None \<Rightarrow> v | Some w \<Rightarrow> w" msg c]
      show ?thesis by simp
    next
      case (Inr x)
      with fit_stage_select[OF eq stacked] fv show ?thesis
        by (auto dest: finish_not_nie)
    qed
  qed
qed

subsection \<open>Rows of arrays\<close>

lemma rows_concat_aux:
  "\<forall>r \<in> set rs. length r = k \<Longrightarrow>
   map (\<lambda>i. take k (drop (i * k) (concat rs))) [0..<length rs] = rs"
proof (induction rs)
  case Nil
  then show ?case by simp
next
  case (Cons r rs)
  have "[0..<length (r # rs)] = 0 # map Suc [0..<length rs]"
    by (simp add: upt_conv_Cons map_Suc_upt del: upt_Suc)
  moreover from Cons.prems have "length r = k" by simp
  moreover from Cons have "map (\<lambda>i. take k (drop (i * k) (concat rs))) [0..<length rs] = rs"
    by simp
  ultimately show ?case by (simp add: comp_def del: upt_Suc)
qed

lemma rows_concat:
  "length rs = n \<Longrightarrow> \<forall>r \<in> set rs. length r = k \<Longrightarrow>
   rows \<lparr>shape = [n, k], data = concat rs\<rparr> = rs"
  using rows_concat_aux[of rs k] by (simp add: rows_def)

lemma length_rows: "shape a = [n, k] \<Longrightarrow> length (rows a) = n"
  by (simp add: rows_def)

lemma rows_length:
  assumes "wf_array a" "shape a = [n, k]" "r \<in> set (rows a)"
  shows "length r = k"
proof -
  from assms(3) obtain i where i: "i < n" and r: "r = take k (drop (i * k) (data a))"
    using assms(2) by (auto simp: rows_def)
  from assms(1,2) have "length (data a) = n * k" by (simp add: wf_array_def)
  moreover from i have "i * k + k \<le> n * k"
    by (metis Suc_leI mult_Suc mult_le_mono1 add.commute)
  ultimately show ?thesis using r by simp
qed

lemma hom4_transpose2:
  "hom4 m \<Longrightarrow> transpose (transpose m) = m \<and> length (transpose m) = 4 \<and> length m = 4"
  unfolding hom4_def by auto

lemma map2_mult_commute: "map2 (*) a b = map2 (*) b (a :: real list)"
proof (induction a arbitrary: b)
  case Nil
  then show ?case by simp
next
  case (Cons x xs)
  then show ?case by (cases b) (simp_all add: mult.commute)
qed

lemma hstack_ones_points:
  "shape a = [n, 3] \<Longrightarrow> hstack_ones a = Inr (homogeneous a)"
  by (simp add: hstack_ones_def homogeneous_def)

lemma rows_homogeneous:
  assumes "wf_array a" "shape a = [n, 3]"
  shows "rows (homogeneous a) = map (\<lambda>r. r @ [1]) (rows a)"
proof -
  have "\<forall>r \<in> set (map (\<lambda>r. r @ [1]) (rows a)). length r = 4"
    using rows_length[OF assms] by auto
  moreover have "length (map (\<lambda>r. r @ [1]) (rows a)) = n"
    using length_rows[OF assms(2)] by simp
  ultimately show ?thesis
    using rows_concat[of "map (\<lambda>r. r @ [1]) (rows a)" n 4] assms(2)
    by (simp add: homogeneous_def)
qed

subsection \<open>The tolerance check\<close>

text \<open>
  The norms that the check computes from the arrays are the residual norms of the matched
  pairs under the fitted transform.
\<close>

lemma residual_norms_fitted:
  assumes "wf_array src" "shape src = [n, 3]" "hom4 m"
    and "dot_nd (homogeneous src) (transpose m) = Inr est"
  shows "residual_norms (first3 est) tgt = fitted_residuals m src tgt"
proof -
  note tt = hom4_transpose2[OF assms(3)]
  let ?R = "matmul (rows (homogeneous src)) (transpose m)"
  have est: "est = \<lparr>shape = [n, 4], data = concat ?R\<rparr>"
    using assms(2,3,4) tt unfolding hom4_def
    by (auto simp: dot_nd_def homogeneous_def ncols_def split: if_splits)
  have lenR: "length ?R = n"
    using length_rows[OF assms(2)] by (simp add: matmul_def rows_homogeneous[OF assms(1,2)])
  have rowR: "\<forall>r \<in> set ?R. length r = 4"
    using tt by (auto simp: matmul_def)
  have rows_est: "rows est = ?R"
    unfolding est using rows_concat[OF lenR rowR] .
  have "first3 est = \<lparr>shape = [n, 3], data = concat (map (take 3) ?R)\<rparr>"
    by (simp add: first3_def rows_est) (simp add: est)
  moreover have "length (map (take 3) ?R) = n" using lenR by simp
  moreover have "\<forall>r \<in> set (map (take 3) ?R). length r = 3" using rowR by auto
  ultimately have rows_first3: "rows (first3 est) = map (take 3) ?R"
    using rows_concat[of "map (take 3) ?R" n 3] by simp
  have R: "?R = map (\<lambda>p. matvec m (p @ [1])) (rows src)"
    using tt by (simp add: matmul_def matvec_def rows_homogeneous[OF assms(1,2)]
        map2_mult_commute[of _ "_ @ [1]"])
  show ?thesis
    unfolding residual_norms_def fitted_residuals_def rows_first3 R
    by (simp add: zip_map1 point_residual_def case_prod_beta)
qed

lemma assess_points:
  assumes "wf_array src" "shape src = [n, 3]" "hom4 m"
    and "(if t then hstack_ones src else Inr src) = Inr src'"
  shows "assess t src' tgt m tol =
     (if \<exists>e \<in> set (fitted_residuals m src tgt). e > tol
      then Inl (RuntimeError ''Error exceeds tolerance. Error = %r'' (fitted_residuals m src tgt))
      else Inr ())"
proof -
  have h: "(if \<not> t then hstack_ones src' else Inr src') = Inr (homogeneous src)"
    using assms(4) hstack_ones_points[OF assms(2)] by (cases t) auto
  have "last (shape (homogeneous src)) = length (transpose m)"
    using hom4_transpose2[OF assms(3)] by (simp add: homogeneous_def)
  then obtain est where est: "dot_nd (homogeneous src) (transpose m) = Inr est"
    by (simp add: dot_nd_def)
  show ?thesis
    unfolding assess_def h
    by (simp add: est residual_norms_fitted[OF assms(1,2,3) est] Let_def)
qed

lemma fit_after_solver:
  assumes "wf_array src" and "shape src = [n, 3]" and "shape tgt = [n, 3]"
    and "(r, t, s) \<in> supported"
    and "(if t then hstack_ones src else Inr src) = Inr src'"
    and "select_error (r, t, s) src' tgt = Inr (f, v)"
    and "leastsq f (case x0 of None \<Rightarrow> v | Some w \<Rightarrow> w) = Inr x"
    and "length x = n_params (r, t, s)"
    and "out = ''params'' \<or> out = ''trans''"
  shows "\<exists>m. trans_from_params (r, t, s) x = Inr m
     \<and> (\<forall>tol. fit_matched_points leastsq src tgt r t s (Some tol) x0 out =
           (if \<exists>e \<in> set (fitted_residuals m src tgt). e > tol
            then Inl (RuntimeError ''Error exceeds tolerance. Error = %r''
                        (fitted_residuals m src tgt))
            else Inr (if out = ''params'' then Params x else Trans m)))
     \<and> fit_matched_points leastsq src tgt r t s None x0 out =
           Inr (if out = ''params'' then Params x else Trans m)"
proof -
  have a2: "atleast_2d src = src" "atleast_2d tgt = tgt"
    using assms(2,3) by (simp_all add: atleast_2d_2d)
  from assms(4) have r: "r \<or> t \<or> s = 1 \<or> s = 3" by (auto simp: supported_def)
  from assms(8) have "n_params (r, t, s) \<le> length x" by simp
  from trans_from_params_product[OF r this] obtain m
    where m: "trans_from_params (r, t, s) x = Inr m" by blast
  then have hom: "hom4 m" by (rule trans_from_params_hom4)
  have fit: "fit_matched_points leastsq src tgt r t s tol x0 out =
      finish (r, t, s) src' tgt tol out x" for tol
  proof -
    have e: "shape (atleast_2d src) = shape (atleast_2d tgt)"
      using assms(2,3) by (simp add: a2)
    have h: "(if t then hstack_ones (atleast_2d src) else Inr (atleast_2d src)) = Inr src'"
      using assms(5) unfolding a2 .
    from fit_stage_select[OF e h] assms(6,7) show ?thesis by (simp add: a2)
  qed
  note as = assess_points[OF assms(1,2) hom assms(5)]
  have 1: "finish (r, t, s) src' tgt (Some tol) out x =
      (if \<exists>e \<in> set (fitted_residuals m src tgt). e > tol
       then Inl (RuntimeError ''Error exceeds tolerance. Error = %r''
                   (fitted_residuals m src tgt))
       else Inr (if out = ''params'' then Params x else Trans m))" for tol
    using assms(9) by (auto simp: finish_def m as)
  have 2: "finish (r, t, s) src' tgt None out x =
      Inr (if out = ''params'' then Params x else Trans m)"
    using assms(9) by (auto simp: finish_def m)
  show ?thesis using m 1 2 by (simp add: fit)
qed

subsection \<open>The landmarks\<close>

lemma bad_point_iff: "bad_point pt \<longleftrightarrow> shape pt \<noteq> [3]"
  by (cases "shape pt") (auto simp: bad_point_def)

lemma get_ras_bad_point:
  "shape nasion \<noteq> [3] \<or> shape lpa \<noteq> [3] \<or> shape rpa \<noteq> [3] \<Longrightarrow>
   get_ras_to_neuromag_trans nasion lpa rpa =
     Inl (ValueError ''Points have to be provided as one dimensional arrays of length 3.'')"
  by (simp add: get_ras_to_neuromag_trans_def bad_point_iff)


subsection \<open>The claims\<close>

lemma guess_solver_not_nie: "guess_solver f v \<noteq> Inl (NotImplementedError msg c)"
  by (simp add: guess_solver_def)

text \<open>
  Claim C2: \<^verbatim>\<open>fit_matched_points\<close> accepts exactly the four combinations (True, False, 0),
  (True, False, 1), (True, True, 0) and (True, True, 1) of (rotate, translate, scale). For
  two point sets of the same shape, every other combination raises the
  \<^verbatim>\<open>NotImplementedError\<close> that names the combination, and nothing is returned; for the
  four combinations no such error is raised, unless the solver itself raises one.
\<close>

theorem fit_matched_points_combinations:
  assumes "shape (atleast_2d src) = shape (atleast_2d tgt)"
    and "length (shape (atleast_2d src)) = 2"
  shows "((r, t, s) \<notin> supported \<longrightarrow>
            fit_matched_points leastsq src tgt r t s tol x0 out =
              Inl (NotImplementedError nie_msg (r, t, s)))
     \<and> ((r, t, s) \<in> supported \<longrightarrow>
            (\<forall>f v msg c. leastsq f v \<noteq> Inl (NotImplementedError msg c)) \<longrightarrow>
            (\<forall>msg c. fit_matched_points leastsq src tgt r t s tol x0 out \<noteq>
                        Inl (NotImplementedError msg c)))"
  using fit_unsupported[OF assms] fit_supported[of r t s leastsq src tgt tol x0 out] by blast

theorem fit_matched_points_combinations_witness:
  "fit_matched_points guess_solver \<lparr>shape = [1, 3], data = [0, 0, 0]\<rparr>
      \<lparr>shape = [1, 3], data = [0, 0, 0]\<rparr> False True 3 None None ''trans'' =
     Inl (NotImplementedError nie_msg (False, True, 3))
   \<and> fit_matched_points guess_solver \<lparr>shape = [1, 3], data = [0, 0, 0]\<rparr>
      \<lparr>shape = [1, 3], data = [0, 0, 0]\<rparr> True True 1 None None ''trans'' \<noteq>
     Inl (NotImplementedError nie_msg (True, True, 1))"
proof -
  let ?P = "\<lparr>shape = [1, 3], data = [0, 0, 0]\<rparr>"
  have h1: "shape (atleast_2d ?P) = shape (atleast_2d ?P)" by simp
  have h2: "length (shape (atleast_2d ?P)) = 2" by (simp add: atleast_2d_def)
  have u: "(False, True, 3) \<notin> supported" and s: "(True, True, 1) \<in> supported"
    by (simp_all add: supported_def)
  from fit_matched_points_combinations[OF h1 h2, of False True 3 guess_solver None None "''trans''"] u
    fit_matched_points_combinations[OF h1 h2, of True True 1 guess_solver None None "''trans''"] s
    guess_solver_not_nie
  show ?thesis by blast
qed

text \<open>
  Claim C3: for two point sets of the same shape (n, 3), a supported combination and an
  estimate \<open>x\<close> that the solver returns: with a tolerance, if the residual norm of any matched
  pair under the fitted transform exceeds the tolerance, the call raises the
  \<^verbatim>\<open>RuntimeError\<close> that carries the residual norms; without a tolerance the call returns
  the parameter vector or the transform, whatever the residuals are.
\<close>

theorem fit_matched_points_tolerance:
  assumes "wf_array src" and "shape src = [n, 3]" and "shape tgt = [n, 3]"
    and "(r, t, s) \<in> supported"
    and "(if t then hstack_ones src else Inr src) = Inr src'"
    and "select_error (r, t, s) src' tgt = Inr (f, v)"
    and "leastsq f (case x0 of None \<Rightarrow> v | Some w \<Rightarrow> w) = Inr x"
    and "length x = n_params (r, t, s)"
    and "out = ''params'' \<or> out = ''trans''"
  shows "\<exists>m. trans_from_params (r, t, s) x = Inr m
     \<and> (\<forall>tol. (\<exists>e \<in> set (fitted_residuals m src tgt). e > tol) \<longrightarrow>
           fit_matched_points leastsq src tgt r t s (Some tol) x0 out =
             Inl (RuntimeError ''Error exceeds tolerance. Error = %r''
                    (fitted_residuals m src tgt)))
     \<and> fit_matched_points leastsq src tgt r t s None x0 out =
           Inr (if out = ''params'' then Params x else Trans m)"
proof -
  from fit_after_solver[of src n tgt r t s src' f v leastsq x0 x out, OF assms] obtain m where
    m: "trans_from_params (r, t, s) x = Inr m" and
    1: "\<And>tol. fit_matched_points leastsq src tgt r t s (Some tol) x0 out =
           (if \<exists>e \<in> set (fitted_residuals m src tgt). e > tol
            then Inl (RuntimeError ''Error exceeds tolerance. Error = %r''
                        (fitted_residuals m src tgt))
            else Inr (if out = ''params'' then Params x else Trans m))" and
    2: "fit_matched_points leastsq src tgt r t s None x0 out =
           Inr (if out = ''params'' then Params x else Trans m)"
    by blast
  show ?thesis
  proof (intro exI conjI allI impI)
    show "trans_from_params (r, t, s) x = Inr m" by (rule m)
    show "fit_matched_points leastsq src tgt r t s None x0 out =
           Inr (if out = ''params'' then Params x else Trans m)" by (rule 2)
    fix tol assume "\<exists>e \<in> set (fitted_residuals m src tgt). e > tol"
    then show "fit_matched_points leastsq src tgt r t s (Some tol) x0 out =
             Inl (RuntimeError ''Error exceeds tolerance. Error = %r''
                    (fitted_residuals m src tgt))"
      by (simp add: 1)
  qed
qed

theorem fit_matched_points_tolerance_witness:
  "fit_matched_points guess_solver \<lparr>shape = [1, 3], data = [0, 0, 0]\<rparr>
      \<lparr>shape = [1, 3], data = [1, 0, 0]\<rparr> True False 0 (Some (1 / 2)) None ''trans'' =
     Inl (RuntimeError ''Error exceeds tolerance. Error = %r'' [1])
   \<and> fit_matched_points guess_solver \<lparr>shape = [1, 3], data = [0, 0, 0]\<rparr>
      \<lparr>shape = [1, 3], data = [1, 0, 0]\<rparr> True False 0 None None ''trans'' = Inr (Trans id4)"
proof -
  let ?src = "\<lparr>shape = [1, 3], data = [0, 0, 0]\<rparr>"
  let ?tgt = "\<lparr>shape = [1, 3], data = [1, 0, 0]\<rparr>"
  have h1: "wf_array ?src" by (simp add: wf_array_def)
  have h2: "shape ?src = [1, 3]" and h3: "shape ?tgt = [1, 3]" by simp_all
  have h4: "(True, False, 0) \<in> supported" by (simp add: supported_def)
  have h5: "(if False then hstack_ones ?src else Inr ?src) = Inr ?src" by simp
  have h6: "select_error (True, False, 0) ?src ?tgt =
      Inr (error_fn trans_r False ?src ?tgt, [0, 0, 0])"
    by (simp add: select_error_def)
  have h7: "guess_solver (error_fn trans_r False ?src ?tgt)
      (case None of None \<Rightarrow> [0, 0, 0] | Some w \<Rightarrow> w) = Inr [0, 0, 0]"
    by (simp add: guess_solver_def)
  have h8: "length [0, 0, 0 :: real] = n_params (True, False, 0)"
    by (simp add: n_params_def scl_off_def rot_off_def)
  have h9: "''trans'' = ''params'' \<or> ''trans'' = ''trans''" by simp
  have m: "trans_from_params (True, False, 0) [0, 0, 0] = Inr id4"
    by (simp add: tfp_defs helper_defs)
  have rs: "rows ?src = [[0, 0, 0]]" "rows ?tgt = [[1, 0, 0]]"
    by (simp_all add: rows_def)
  have res: "fitted_residuals id4 ?src ?tgt = [1]"
    unfolding fitted_residuals_def rs
    by (simp add: point_residual_def matvec_def id4_def)
  from fit_matched_points_tolerance[of ?src 1 ?tgt True False 0 ?src
      "error_fn trans_r False ?src ?tgt" "[0, 0, 0]" guess_solver None "[0, 0, 0]" "''trans''",
      OF h1 h2 h3 h4 h5 h6 h7 h8 h9] m res
  show ?thesis by auto
qed

text \<open>
  Claim C8: \<^verbatim>\<open>fit_matched_points\<close> raises the \<^verbatim>\<open>ValueError\<close> of a shape mismatch
  whenever the two point sets do not have the same shape, whatever the solver and the other
  arguments are; the shapes are compared after \<^verbatim>\<open>np.atleast_2d\<close>, which leaves an array
  of two or more dimensions as it is; \<^verbatim>\<open>get_ras_to_neuromag_trans\<close> raises a
  \<^verbatim>\<open>ValueError\<close> whenever one of the three landmarks is not a 1-d array of length 3.
\<close>

theorem shape_mismatch:
  "(shape (atleast_2d src) \<noteq> shape (atleast_2d tgt) \<longrightarrow>
      fit_matched_points leastsq src tgt r t s tol x0 out =
        Inl (ValueError ''src_pts and tgt_pts must have same shape (got {0}, {1})''))
   \<and> (2 \<le> length (shape src) \<and> 2 \<le> length (shape tgt) \<and> shape src \<noteq> shape tgt \<longrightarrow>
      fit_matched_points leastsq src tgt r t s tol x0 out =
        Inl (ValueError ''src_pts and tgt_pts must have same shape (got {0}, {1})''))
   \<and> (shape nasion \<noteq> [3] \<or> shape lpa \<noteq> [3] \<or> shape rpa \<noteq> [3] \<longrightarrow>
        get_ras_to_neuromag_trans nasion lpa rpa =
          Inl (ValueError ''Points have to be provided as one dimensional arrays of length 3.''))"
  using fit_shape_mismatch[of src tgt leastsq r t s tol x0 out]
    get_ras_bad_point[of nasion lpa rpa] atleast_2d_id[of src] atleast_2d_id[of tgt]
  by auto

theorem shape_mismatch_witness:
  "shape (atleast_2d \<lparr>shape = [2, 3], data = [0, 0, 0, 1, 1, 1]\<rparr>) \<noteq>
     shape (atleast_2d \<lparr>shape = [1, 3], data = [0, 0, 0]\<rparr>)
   \<and> 2 \<le> length (shape \<lparr>shape = [2, 3], data = [0, 0, 0, 1, 1, 1]\<rparr>)
   \<and> 2 \<le> length (shape \<lparr>shape = [1, 3], data = [0, 0, 0]\<rparr>)
   \<and> fit_matched_points guess_solver \<lparr>shape = [2, 3], data = [0, 0, 0, 1, 1, 1]\<rparr>
        \<lparr>shape = [1, 3], data = [0, 0, 0]\<rparr> True True 0 None None ''trans'' =
        Inl (ValueError ''src_pts and tgt_pts must have same shape (got {0}, {1})'')
   \<and> shape \<lparr>shape = [2], data = [0, 1]\<rparr> \<noteq> [3]
   \<and> get_ras_to_neuromag_trans \<lparr>shape = [2], data = [0, 1]\<rparr>
        \<lparr>shape = [3], data = [- 1, 0, 0]\<rparr> \<lparr>shape = [3], data = [1, 0, 0]\<rparr> =
        Inl (ValueError ''Points have to be provided as one dimensional arrays of length 3.'')"
proof -
  have h1: "shape (atleast_2d \<lparr>shape = [2, 3], data = [0, 0, 0, 1, 1, 1]\<rparr>) \<noteq>
     shape (atleast_2d \<lparr>shape = [1, 3], data = [0, 0, 0]\<rparr>)"
    by (simp add: atleast_2d_def)
  have h2: "shape \<lparr>shape = [2], data = [0, 1]\<rparr> \<noteq> [3]" by simp
  have h3: "2 \<le> length (shape \<lparr>shape = [2, 3], data = [0, 0, 0, 1, 1, 1]\<rparr>)"
    "2 \<le> length (shape \<lparr>shape = [1, 3], data = [0, 0, 0]\<rparr>)" by simp_all
  from shape_mismatch[of "\<lparr>shape = [2, 3], data = [0, 0, 0, 1, 1, 1]\<rparr>"
      "\<lparr>shape = [1, 3], data = [0, 0, 0]\<rparr>" guess_solver True True 0 None None "''trans''"
      "\<lparr>shape = [2], data = [0, 1]\<rparr>" "\<lparr>shape = [3], data = [- 1, 0, 0]\<rparr>"
      "\<lparr>shape = [3], data = [1, 0, 0]\<rparr>"] h1 h2 h3
  show ?thesis by blast
qed



text \<open>
  Claim C6: for the landmarks nasion = (0, 1, 0), lpa = (-1, 0, 0), rpa = (1, 0, 0),
  \<^verbatim>\<open>get_ras_to_neuromag_trans\<close> returns a 4 x 4 matrix whose rotation block maps (1, 0, 0)
  to (1, 0, 0) and whose translation column is (0, 0, 0): it returns the identity.
\<close>

theorem get_ras_example:
  "get_ras_to_neuromag_trans \<lparr>shape = [3], data = [0, 1, 0]\<rparr>
      \<lparr>shape = [3], data = [- 1, 0, 0]\<rparr> \<lparr>shape = [3], data = [1, 0, 0]\<rparr> = Inr id4
   \<and> length id4 = 4
   \<and> matvec (rotation_part id4) [1, 0, 0] = [1, 0, 0]
   \<and> translation_part id4 = [0, 0, 0]"
  by (simp add: get_ras_to_neuromag_trans_def bad_point_def vsub_def vadd_def smul_def vdot_def
      linalg_norm_def cross_def unpack3_def translation_def dot_def matmul_def id4_def
      matvec_def rotation_part_def translation_part_def)


section \<open>Properties of \<^verbatim>\<open>_decimate_points\<close>\<close>

subsection \<open>The voxel of a point\<close>























subsection \<open>Examples\<close>

lemma decimate_points_eval:
  assumes "pts \<noteq> []" and "exact_input pts res"
    and "bin_edges pts res = (xax, yax, zax)"
    and "length xax - 1 = nx" and "length yax - 1 = ny" and "length zax - 1 = nz"
    and "List.product [0..<nx] (List.product [0..<ny] [0..<nz]) = vox"
    and "filter (\<lambda>b. histogramdd pts (xax, yax, zax) b \<noteq> 0) vox = occ"
    and "select_points pts res (xax, yax, zax) occ = r"
  shows "decimate_points pts res = r"
  using assms by (simp add: decimate_points_def Let_def nonzero_def)

lemmas exact_eval = exact_input_def exact_coord_def is_int_def px_def py_def pz_def

lemmas edges_eval = bin_edges_def amin_def amax_def arange_def px_def py_def pz_def upt_rec
lemmas bin3_eval = bin3_def bin_index_def digitize_def px_def py_def pz_def
lemma le_sqrt_iff_sq: "0 \<le> a \<Longrightarrow> a \<le> sqrt b \<longleftrightarrow> a\<^sup>2 \<le> b"
  using real_sqrt_le_iff[of "a\<^sup>2" b] by simp

lemma sqrt_le_iff_sq: "0 \<le> b \<Longrightarrow> sqrt a \<le> b \<longleftrightarrow> a \<le> b\<^sup>2"
  using real_sqrt_le_iff[of a "b\<^sup>2"] by simp

lemmas select_eval = select_point_def in_voxel_def cdist_def px_def py_def pz_def
  le_sqrt_iff_sq sqrt_le_iff_sq

lemma voxels_211: "List.product [0..<2] (List.product [0..<1] [0..<1]) = [(0, 0, 0), (1, 0, 0)]"
  by (simp add: upt_rec)






subsection \<open>The claims\<close>




text \<open>
  Claim C5 says that \<^verbatim>\<open>_decimate_points\<close> returns, for every non-empty point set and
  every positive resolution, one point of each occupied voxel. For the two points (0, 0, 0)
  and (15, 0, 0) and resolution 10 the bin edges along x are -5, 5, 15: the histogram counts
  the point on the last edge in the last bin, the half-open test of the loop finds no point
  in that voxel, and \<^verbatim>\<open>argmin\<close> raises on the empty selection.
\<close>

theorem decimate_points_edge_failure:
  "decimate_points [(0, 0, 0), (15, 0, 0)] 10 =
     Inl (ValueError ''attempt to get argmin of an empty sequence'')"
proof -
  let ?pts = "[(0, 0, 0), (15, 0, 0)] :: point list"
  let ?E = "([- 5, 5, 15], [- 5, 5], [- 5, 5]) :: real list \<times> real list \<times> real list"
  have e: "bin_edges ?pts 10 = ?E" by (simp add: edges_eval)
  have b: "bin3 ?E (0, 0, 0) = Some (0, 0, 0)" "bin3 ?E (15, 0, 0) = Some (1, 0, 0)"
    by (simp_all add: bin3_eval)
  have h: "filter (\<lambda>b. histogramdd ?pts ?E b \<noteq> 0) [(0, 0, 0), (1, 0, 0)] =
      [(0, 0, 0), (1, 0, 0)]"
    by (simp add: histogramdd_def b)
  have s: "select_points ?pts 10 ?E [(0, 0, 0), (1, 0, 0)] =
      Inl (ValueError ''attempt to get argmin of an empty sequence'')"
    by (simp add: select_eval)
  show ?thesis
    by (rule decimate_points_eval[OF _ _ e _ _ _ voxels_211 h s]) (simp_all add: exact_eval)
qed

end
